theory Spec2Isabelle
  imports Main "HOL-Library.AList"
begin

section \<open>The Claude Island hook (claude-island-state.py)\<close>

text \<open>
  The hook is one Python script: it reads one JSON document from standard input, builds a
  state dictionary, sends it to the companion application over a socket and, for a
  \<^verbatim>\<open>PermissionRequest\<close>, waits for a reply and prints a decision. The embedding below
  follows the script function by function. Everything the script obtains from outside
  (standard input, the environment, sub-processes, the peer on the socket, the library
  routine that parses the reply) is a field of the record \<open>world\<close>; everything the script
  does to the outside (socket calls, the printed document, the exit status) is returned.
\<close>

subsection \<open>JSON values and Python dictionaries\<close>

text \<open>
  What \<^verbatim>\<open>json.load\<close> returns. A Python \<^verbatim>\<open>str\<close> is modelled as a \<open>string\<close>, one
  \<open>char\<close> for each code point, so the strings of the model are those whose code points
  are below 256. An \<^verbatim>\<open>int\<close> is an \<open>int\<close>, a finite \<^verbatim>\<open>float\<close> \<open>m * 2 ^ e\<close> is
  \<open>JFloat m e\<close>, \<^verbatim>\<open>None\<close> is \<open>JNull\<close>. A \<^verbatim>\<open>dict\<close> is the list of its items in
  insertion order, with distinct keys.
\<close>

datatype json =
    JNull
  | JBool bool
  | JInt int
  | JFloat int int
  | JString string
  | JArray "json list"
  | JObject "(string \<times> json) list"

type_synonym dict = "(string \<times> json) list"

text \<open>Python's truth value of an object, as \<^verbatim>\<open>if x:\<close> and \<^verbatim>\<open>x or y\<close> test it.\<close>

fun truthy :: "json \<Rightarrow> bool" where
  "truthy JNull = False"
| "truthy (JBool b) = b"
| "truthy (JInt i) = (i \<noteq> 0)"
| "truthy (JFloat m e) = (m \<noteq> 0)"
| "truthy (JString s) = (s \<noteq> [])"
| "truthy (JArray xs) = (xs \<noteq> [])"
| "truthy (JObject kvs) = (kvs \<noteq> [])"

text \<open>\<^verbatim>\<open>d.get(k, default)\<close> and \<^verbatim>\<open>d[k] = v\<close> (a new key goes to the end).\<close>

definition dict_get :: "dict \<Rightarrow> string \<Rightarrow> json \<Rightarrow> json" where
  "dict_get d k dflt = (case map_of d k of Some v \<Rightarrow> v | None \<Rightarrow> dflt)"

definition dict_set :: "dict \<Rightarrow> string \<Rightarrow> json \<Rightarrow> dict" where
  "dict_set d k v = AList.update k v d"

text \<open>An environment variable as \<^verbatim>\<open>os.environ.get\<close> returns it.\<close>

definition opt_str :: "string option \<Rightarrow> json" where
  "opt_str x = (case x of None \<Rightarrow> JNull | Some s \<Rightarrow> JString s)"

subsection \<open>Exceptions, sockets and the outside world\<close>

text \<open>
  The exception classes that can reach the two \<^verbatim>\<open>except\<close> clauses of the script.
  \<open>SocketTimeout\<close> stands for \<^verbatim>\<open>socket.timeout\<close> and \<open>OSError\<close> for every other
  subclass of \<^verbatim>\<open>OSError\<close> (\<^verbatim>\<open>socket.error\<close> is \<^verbatim>\<open>OSError\<close> itself).
  \<^verbatim>\<open>JSONDecodeError\<close> and \<^verbatim>\<open>UnicodeDecodeError\<close> are subclasses of \<^verbatim>\<open>ValueError\<close>,
  which is not a subclass of either.
\<close>

datatype py_exc =
    JSONDecodeError
  | UnicodeDecodeError
  | ValueError
  | OSError
  | SocketTimeout
  | OverflowError
  | AttributeError
  | RecursionError

datatype family = AF_INET | AF_UNIX

datatype address = InetAddr string int | UnixAddr string

text \<open>The calls the script makes on its socket, in the order it makes them.\<close>

datatype net_event =
    Socket family
  | Settimeout nat
  | Connect address
  | Sendall json
  | Recv nat
  | Close

record world =
  stdin_json :: "py_exc + json"
  environ :: "string \<Rightarrow> string option"
  int_max_str_digits :: nat
  getppid :: int
  ps_tty :: "string option"
  ttyname_stdin :: "string option"
  ttyname_stdout :: "string option"
  tmux_display :: "(int \<times> string) option"
  connect_result :: "address \<Rightarrow> py_exc option"
  sendall_result :: "py_exc option"
  recv_result :: "py_exc + string"
  loads_decode :: "string \<Rightarrow> py_exc + json"

text \<open>
  \<^item> \<open>stdin_json\<close>: what \<^verbatim>\<open>json.load(sys.stdin)\<close> does, a value or the exception raised;
  \<^item> \<open>environ\<close>, \<open>getppid\<close>: \<^verbatim>\<open>os.environ\<close> and \<^verbatim>\<open>os.getppid()\<close>;
  \<^item> \<open>int_max_str_digits\<close>: \<^verbatim>\<open>sys.get_int_max_str_digits()\<close>, the interpreter's limit
    on the number of digits \<^verbatim>\<open>int()\<close> converts: 4300 unless the interpreter is
    configured otherwise, 0 when the limit is switched off or the interpreter has none;
  \<^item> \<open>ps_tty\<close>: the standard output of the \<^verbatim>\<open>ps\<close> sub-process, \<open>None\<close> when
    \<^verbatim>\<open>subprocess.run\<close> raises; \<open>ttyname_stdin\<close>, \<open>ttyname_stdout\<close>: \<^verbatim>\<open>os.ttyname\<close> of the
    two descriptors, \<open>None\<close> when it raises;
  \<^item> \<open>tmux_display\<close>: return code and standard output of the \<^verbatim>\<open>tmux\<close> sub-process,
    \<open>None\<close> when \<^verbatim>\<open>subprocess.run\<close> raises;
  \<^item> \<open>connect_result\<close>, \<open>sendall_result\<close>: the exception \<^verbatim>\<open>sock.connect\<close> and
    \<^verbatim>\<open>sock.sendall\<close> raise, \<open>None\<close> when they return (for \<^verbatim>\<open>connect\<close> that includes
    the \<^verbatim>\<open>OverflowError\<close> of a port outside 0 to 65535); \<open>recv_result\<close>: the bytes the
    peer sends, or the exception \<^verbatim>\<open>sock.recv\<close> raises;
  \<^item> \<open>loads_decode\<close>: \<^verbatim>\<open>json.loads(response.decode())\<close> on the received bytes.
\<close>

definition SOCKET_PATH :: string where
  "SOCKET_PATH = ''/tmp/claude-island.sock''"

definition TIMEOUT_SECONDS :: nat where
  "TIMEOUT_SECONDS = 300"

subsection \<open>Strings: \<^verbatim>\<open>strip\<close>, \<^verbatim>\<open>rsplit\<close>, \<^verbatim>\<open>int\<close>\<close>

text \<open>
  The characters \<^verbatim>\<open>str.strip()\<close> removes, those for which \<^verbatim>\<open>str.isspace()\<close> holds:
  below 256 they are the code points 9 to 13, 28 to 32, 133 and 160.
\<close>

definition is_space :: "char \<Rightarrow> bool" where
  "is_space c = (of_char c \<in> set [9, 10, 11, 12, 13, 28, 29, 30, 31, 32, 133, 160 :: nat])"

definition strip :: "string \<Rightarrow> string" where
  "strip s = rev (dropWhile is_space (rev (dropWhile is_space s)))"

text \<open>\<^verbatim>\<open>s.rsplit(c, 1)\<close> for an \<open>s\<close> that contains \<open>c\<close>: the parts before and after the last \<open>c\<close>.\<close>

definition rsplit1 :: "char \<Rightarrow> string \<Rightarrow> string \<times> string" where
  "rsplit1 c s =
     (rev (drop 1 (dropWhile (\<lambda>x. x \<noteq> c) (rev s))), rev (takeWhile (\<lambda>x. x \<noteq> c) (rev s)))"

definition is_digit :: "char \<Rightarrow> bool" where
  "is_digit c = (48 \<le> (of_char c :: nat) \<and> (of_char c :: nat) \<le> 57)"

definition digit_val :: "char \<Rightarrow> int" where
  "digit_val c = int (of_char c) - 48"

text \<open>Decimal digits, with single underscores allowed between two digits.\<close>

fun py_digits :: "string \<Rightarrow> int \<Rightarrow> int option" where
  "py_digits [] acc = Some acc"
| "py_digits (c # cs) acc =
     (if is_digit c then py_digits cs (10 * acc + digit_val c)
      else if c = CHR ''_'' then
        (case cs of [] \<Rightarrow> None | d # ds \<Rightarrow> if is_digit d then py_digits cs acc else None)
      else None)"

text \<open>
  The white space \<^verbatim>\<open>int()\<close> skips around a number is narrower than that of
  \<^verbatim>\<open>str.strip()\<close>: the code points 9 to 13 and 32, and 133 and 160. The code points 28
  to 31 are not skipped: \<^verbatim>\<open>int\<close> of the code point 31 followed by \<^verbatim>\<open>8080\<close> raises
  \<^verbatim>\<open>ValueError\<close>.
\<close>

definition int_space :: "char \<Rightarrow> bool" where
  "int_space c = (of_char c \<in> set [9, 10, 11, 12, 13, 32, 133, 160 :: nat])"

text \<open>
  \<^verbatim>\<open>int(s)\<close> under the digit limit \<open>limit\<close> (0 for none): \<open>None\<close> is \<^verbatim>\<open>ValueError\<close>.
  White space around the number is dropped, one sign is allowed, the first character
  after it must be a digit, and the rest digits with single underscores between them.
  When there is a limit, more digits than the limit raise; leading zeros count as
  digits, the sign, the underscores and the white space do not.
\<close>

definition py_int :: "nat \<Rightarrow> string \<Rightarrow> int option" where
  "py_int limit s =
     (case rev (dropWhile int_space (rev (dropWhile int_space s))) of
        [] \<Rightarrow> None
      | c # r \<Rightarrow>
          (let neg = (c = CHR ''-'');
               body = (if c = CHR ''-'' \<or> c = CHR ''+'' then r else c # r)
           in case body of
                [] \<Rightarrow> None
              | d # ds \<Rightarrow>
                  if \<not> is_digit d then None
                  else if 0 < limit \<and> limit < length (filter is_digit body) then None
                  else map_option (\<lambda>n. if neg then - n else n) (py_digits body 0)))"

subsection \<open>\<^verbatim>\<open>get_tty\<close> and \<^verbatim>\<open>get_tmux_target\<close>\<close>

definition get_tty :: "world \<Rightarrow> json" where
  "get_tty w =
     (case (case ps_tty w of
              None \<Rightarrow> None
            | Some out \<Rightarrow>
                (let tty = strip out in
                 if tty \<noteq> [] \<and> tty \<noteq> ''??'' \<and> tty \<noteq> ''-''
                 then Some (if take 5 tty \<noteq> ''/dev/'' then ''/dev/'' @ tty else tty)
                 else None)) of
        Some tty \<Rightarrow> JString tty
      | None \<Rightarrow>
          (case ttyname_stdin w of
             Some t \<Rightarrow> JString t
           | None \<Rightarrow>
               (case ttyname_stdout w of
                  Some t \<Rightarrow> JString t
                | None \<Rightarrow> JNull)))"

definition get_tmux_target :: "world \<Rightarrow> json" where
  "get_tmux_target w =
     (case environ w ''TMUX_PANE'' of
        None \<Rightarrow> JNull
      | Some pane \<Rightarrow>
          if pane = [] then JNull
          else (case tmux_display w of
                  None \<Rightarrow> JString pane
                | Some (returncode, out) \<Rightarrow>
                    if returncode = 0 \<and> strip out \<noteq> [] then JString (strip out)
                    else JString pane))"

subsection \<open>\<^verbatim>\<open>get_socket\<close>\<close>

text \<open>
  The result is the exception raised, or nothing (the connected socket), together with
  the socket calls made. \<^verbatim>\<open>int()\<close> runs before the socket is created, so a port that is
  not a number raises \<^verbatim>\<open>ValueError\<close> with no socket call at all.
\<close>

definition get_socket :: "world \<Rightarrow> py_exc option \<times> net_event list" where
  "get_socket w =
     (case environ w ''CLAUDE_ISLAND_TCP'' of
        None \<Rightarrow>
          (connect_result w (UnixAddr SOCKET_PATH),
           [Socket AF_UNIX, Settimeout TIMEOUT_SECONDS, Connect (UnixAddr SOCKET_PATH)])
      | Some tcp_target \<Rightarrow>
          if tcp_target \<noteq> [] then
            (let (host, port_str) =
                   (if CHR '':'' \<in> set tcp_target then rsplit1 CHR '':'' tcp_target
                    else (''localhost'', tcp_target))
             in case py_int (int_max_str_digits w) port_str of
                  None \<Rightarrow> (Some ValueError, [])
                | Some port \<Rightarrow>
                    (connect_result w (InetAddr host port),
                     [Socket AF_INET, Settimeout TIMEOUT_SECONDS, Connect (InetAddr host port)]))
          else
            (connect_result w (UnixAddr SOCKET_PATH),
             [Socket AF_UNIX, Settimeout TIMEOUT_SECONDS, Connect (UnixAddr SOCKET_PATH)]))"

subsection \<open>\<^verbatim>\<open>send_event\<close>\<close>

text \<open>
  \<^verbatim>\<open>except (socket.error, OSError, json.JSONDecodeError): return None\<close>: the classes the
  clause catches, and what the function does with an exception raised in its body.
\<close>

definition caught :: "py_exc \<Rightarrow> bool" where
  "caught e = (e = OSError \<or> e = SocketTimeout \<or> e = JSONDecodeError)"

definition handle :: "py_exc \<Rightarrow> py_exc + json" where
  "handle e = (if caught e then Inr JNull else Inl e)"

text \<open>
  The result is the exception that leaves the function or the value returned
  (\<open>JNull\<close> is Python's \<^verbatim>\<open>None\<close>), with the socket calls made. \<open>Sendall (JObject state)\<close>
  records the call \<^verbatim>\<open>sock.sendall(json.dumps(state).encode())\<close>.
\<close>

definition send_event :: "world \<Rightarrow> dict \<Rightarrow> (py_exc + json) \<times> net_event list" where
  "send_event w state =
     (case get_socket w of
        (Some e, tr) \<Rightarrow> (handle e, tr)
      | (None, tr) \<Rightarrow>
          (case sendall_result w of
             Some e \<Rightarrow> (handle e, tr @ [Sendall (JObject state)])
           | None \<Rightarrow>
               if dict_get state ''status'' JNull = JString ''waiting_for_approval'' then
                 (case recv_result w of
                    Inl e \<Rightarrow> (handle e, tr @ [Sendall (JObject state), Recv 4096])
                  | Inr bytes \<Rightarrow>
                      (let response = take 4096 bytes in
                       if response \<noteq> [] then
                         (case loads_decode w response of
                            Inl e \<Rightarrow> (handle e, tr @ [Sendall (JObject state), Recv 4096, Close])
                          | Inr reply \<Rightarrow>
                              (Inr reply, tr @ [Sendall (JObject state), Recv 4096, Close]))
                       else (Inr JNull, tr @ [Sendall (JObject state), Recv 4096, Close])))
               else (Inr JNull, tr @ [Sendall (JObject state), Close])))"

subsection \<open>\<^verbatim>\<open>main\<close>\<close>

text \<open>Line 130: \<^verbatim>\<open>event = data.get("hook_event_name", "")\<close>.\<close>

definition event_name :: "dict \<Rightarrow> json" where
  "event_name data = dict_get data ''hook_event_name'' (JString '''')"

text \<open>Lines 129 to 151: the state dictionary before the event is looked at.\<close>

definition base_state :: "world \<Rightarrow> dict \<Rightarrow> dict" where
  "base_state w data =
     (let remote_host = opt_str (environ w ''CLAUDE_ISLAND_REMOTE_HOST'') in
      [(''session_id'', dict_get data ''session_id'' (JString ''unknown'')),
       (''cwd'', dict_get data ''cwd'' (JString '''')),
       (''event'', event_name data),
       (''pid'', JInt (getppid w)),
       (''tty'', get_tty w),
       (''remote_host'', remote_host),
       (''tmux_target'', if truthy remote_host then get_tmux_target w else JNull)])"

text \<open>
  Lines 160 to 165 and 169 to 174: the fields the two tool events add after the status.
\<close>

definition tool_fields :: "dict \<Rightarrow> dict \<Rightarrow> dict" where
  "tool_fields data state =
     (let state1 = dict_set state ''tool'' (dict_get data ''tool_name'' JNull);
          state2 = dict_set state1 ''tool_input'' (dict_get data ''tool_input'' (JObject []));
          tool_use_id_from_event = dict_get data ''tool_use_id'' JNull
      in if truthy tool_use_id_from_event
         then dict_set state2 ''tool_use_id'' tool_use_id_from_event
         else state2)"

text \<open>
  Lines 153 to 249, the chain of \<^verbatim>\<open>if\<close>/\<^verbatim>\<open>elif\<close> on the event name: the state that is
  handed to \<^verbatim>\<open>send_event\<close>, or \<open>None\<close> on the one branch that leaves with
  \<^verbatim>\<open>sys.exit(0)\<close> before any state is sent.
\<close>

definition build_state :: "world \<Rightarrow> dict \<Rightarrow> dict option" where
  "build_state w data =
     (let event = event_name data;
          state = base_state w data
      in
      if event = JString ''UserPromptSubmit'' then
        Some (dict_set state ''status'' (JString ''processing''))
      else if event = JString ''PreToolUse'' then
        Some (tool_fields data (dict_set state ''status'' (JString ''running_tool'')))
      else if event = JString ''PostToolUse'' then
        Some (tool_fields data (dict_set state ''status'' (JString ''processing'')))
      else if event = JString ''PermissionRequest'' then
        Some (dict_set
               (dict_set (dict_set state ''status'' (JString ''waiting_for_approval''))
                  ''tool'' (dict_get data ''tool_name'' JNull))
               ''tool_input'' (dict_get data ''tool_input'' (JObject [])))
      else if event = JString ''Notification'' then
        (let notification_type = dict_get data ''notification_type'' JNull in
         if notification_type = JString ''permission_prompt'' then None
         else
           Some (dict_set
                  (dict_set
                     (dict_set state ''status''
                        (if notification_type = JString ''idle_prompt''
                         then JString ''waiting_for_input'' else JString ''notification''))
                     ''notification_type'' notification_type)
                  ''message'' (dict_get data ''message'' JNull)))
      else if event = JString ''Stop'' then
        Some (dict_set state ''status'' (JString ''waiting_for_input''))
      else if event = JString ''SubagentStop'' then
        Some (dict_set state ''status'' (JString ''waiting_for_input''))
      else if event = JString ''SessionStart'' then
        Some (dict_set state ''status'' (JString ''waiting_for_input''))
      else if event = JString ''SessionEnd'' then
        Some (dict_set state ''status'' (JString ''ended''))
      else if event = JString ''PreCompact'' then
        Some (dict_set state ''status'' (JString ''compacting''))
      else
        Some (dict_set state ''status'' (JString ''unknown'')))"

text \<open>How the process ends: \<^verbatim>\<open>sys.exit(n)\<close> or the end of \<^verbatim>\<open>main\<close>, or an exception that
  nothing catches (the interpreter prints a traceback and exits with status 1).\<close>

datatype proc_result = Exit nat | Uncaught py_exc

fun exit_status :: "proc_result \<Rightarrow> nat" where
  "exit_status (Exit n) = n"
| "exit_status (Uncaught e) = 1"

record outcome =
  proc :: proc_result
  stdout :: "json list"
  net :: "net_event list"

text \<open>
  Lines 186 to 216: what the permission branch does with the value \<^verbatim>\<open>send_event\<close>
  returned, with the two documents of lines 192 to 197 and 203 to 211 that it prints.
  A reply that is true but not a dictionary has no \<^verbatim>\<open>get\<close>: \<^verbatim>\<open>AttributeError\<close>.
\<close>

definition permission_reply :: "json \<Rightarrow> proc_result \<times> json list" where
  "permission_reply response =
     (if truthy response then
        (case response of
           JObject r \<Rightarrow>
             (let decision = dict_get r ''decision'' (JString ''ask'');
                  reason = dict_get r ''reason'' (JString '''')
              in if decision = JString ''allow'' then
                   (Exit 0,
                    [JObject [(''hookSpecificOutput'',
                       JObject [(''hookEventName'', JString ''PermissionRequest''),
                                (''decision'', JObject [(''behavior'', JString ''allow'')])])]])
                 else if decision = JString ''deny'' then
                   (Exit 0,
                    [JObject [(''hookSpecificOutput'',
                       JObject [(''hookEventName'', JString ''PermissionRequest''),
                                (''decision'',
                                 JObject [(''behavior'', JString ''deny''),
                                          (''message'',
                                           if truthy reason then reason
                                           else JString ''Denied by user via ClaudeIsland'')])])]])
                 else (Exit 0, []))
         | _ \<Rightarrow> (Uncaught AttributeError, []))
      else (Exit 0, []))"

text \<open>
  The whole script. A document that parses but is not an object has no \<^verbatim>\<open>get\<close>, so
  line 129 raises \<^verbatim>\<open>AttributeError\<close>. The permission branch sends its state itself
  (line 184) and always leaves through \<^verbatim>\<open>sys.exit\<close>; every other state is sent by
  line 252, whose result is dropped.
\<close>

definition main :: "world \<Rightarrow> outcome" where
  "main w =
     (case stdin_json w of
        Inl e \<Rightarrow>
          \<lparr>proc = (if e = JSONDecodeError then Exit 1 else Uncaught e), stdout = [], net = []\<rparr>
      | Inr (JObject data) \<Rightarrow>
          (case build_state w data of
             None \<Rightarrow> \<lparr>proc = Exit 0, stdout = [], net = []\<rparr>
           | Some state \<Rightarrow>
               (case send_event w state of
                  (Inl e, tr) \<Rightarrow> \<lparr>proc = Uncaught e, stdout = [], net = tr\<rparr>
                | (Inr response, tr) \<Rightarrow>
                    if event_name data = JString ''PermissionRequest''
                    then (let (p, out) = permission_reply response
                          in \<lparr>proc = p, stdout = out, net = tr\<rparr>)
                    else \<lparr>proc = Exit 0, stdout = [], net = tr\<rparr>))
      | Inr _ \<Rightarrow> \<lparr>proc = Uncaught AttributeError, stdout = [], net = []\<rparr>)"

subsection \<open>Reading a trace, and worlds to run the script in\<close>

text \<open>The writes and reads among the socket calls of a trace.\<close>

fun is_io :: "net_event \<Rightarrow> bool" where
  "is_io (Sendall _) = True"
| "is_io (Recv _) = True"
| "is_io _ = False"

definition io :: "net_event list \<Rightarrow> net_event list" where
  "io tr = filter is_io tr"

text \<open>
  A world in which the application listens and everything works: the hook runs under
  process 4242 on \<^verbatim>\<open>ttys001\<close> with the interpreter's default digit limit, the
  connection and the write succeed, and the peer closes the connection without sending
  anything.
\<close>

definition example_world :: "json \<Rightarrow> (string \<Rightarrow> string option) \<Rightarrow> world" where
  "example_world doc env =
     \<lparr>stdin_json = Inr doc, environ = env, int_max_str_digits = 4300, getppid = 4242,
      ps_tty = Some ''ttys001'',
      ttyname_stdin = None, ttyname_stdout = None, tmux_display = None,
      connect_result = (\<lambda>_. None), sendall_result = None, recv_result = Inr [],
      loads_decode = (\<lambda>_. Inl JSONDecodeError)\<rparr>"

text \<open>The same world, but the peer answers with \<open>bytes\<close>, which parse to \<open>reply\<close>.\<close>

definition reply_world ::
  "json \<Rightarrow> (string \<Rightarrow> string option) \<Rightarrow> string \<Rightarrow> json \<Rightarrow> world" where
  "reply_world doc env bytes reply =
     (example_world doc env)
       \<lparr>recv_result := Inr bytes,
        loads_decode := (\<lambda>b. if b = bytes then Inr reply else Inl JSONDecodeError)\<rparr>"

text \<open>
  An input document that has every optional field, under the event name \<open>tag\<close> and with
  the notification type \<open>kind\<close>; and the world that feeds it to the script.
\<close>

definition event_doc :: "string \<Rightarrow> string \<Rightarrow> dict" where
  "event_doc tag kind =
     [(''session_id'', JString ''s-1''),
      (''hook_event_name'', JString tag),
      (''cwd'', JString ''/work''),
      (''tool_name'', JString ''Bash''),
      (''tool_input'', JObject [(''command'', JString ''ls'')]),
      (''tool_use_id'', JString ''toolu_01''),
      (''notification_type'', JString kind),
      (''message'', JString ''hello'')]"

definition event_world :: "string \<Rightarrow> string \<Rightarrow> world" where
  "event_world tag kind = example_world (JObject (event_doc tag kind)) Map.empty"









subsection \<open>Facts about dictionaries and the state that is built\<close>

lemma dict_set_fresh: "k \<notin> set (map fst al) \<Longrightarrow> dict_set al k v = al @ [(k, v)]"
  unfolding dict_set_def by (induct al) auto

lemma base_state_keys:
  "map fst (base_state w data) =
     [''session_id'', ''cwd'', ''event'', ''pid'', ''tty'', ''remote_host'', ''tmux_target'']"
  by (simp add: base_state_def Let_def)

lemma set_status:
  "dict_set (base_state w data) ''status'' s = base_state w data @ [(''status'', s)]"
  by (rule dict_set_fresh) (simp add: base_state_keys)

lemma tool_fields_status:
  "tool_fields data (base_state w data @ [(''status'', s)]) =
     base_state w data @
       [(''status'', s),
        (''tool'', dict_get data ''tool_name'' JNull),
        (''tool_input'', dict_get data ''tool_input'' (JObject []))] @
       (if truthy (dict_get data ''tool_use_id'' JNull)
        then [(''tool_use_id'', dict_get data ''tool_use_id'' JNull)] else [])"
  by (simp add: tool_fields_def Let_def dict_set_fresh base_state_keys)

lemma build_UserPromptSubmit:
  "event_name data = JString ''UserPromptSubmit'' \<Longrightarrow>
   build_state w data = Some (base_state w data @ [(''status'', JString ''processing'')])"
  by (simp add: build_state_def Let_def set_status)

lemma build_PreToolUse:
  "event_name data = JString ''PreToolUse'' \<Longrightarrow>
   build_state w data = Some (base_state w data @
       [(''status'', JString ''running_tool''),
        (''tool'', dict_get data ''tool_name'' JNull),
        (''tool_input'', dict_get data ''tool_input'' (JObject []))] @
       (if truthy (dict_get data ''tool_use_id'' JNull)
        then [(''tool_use_id'', dict_get data ''tool_use_id'' JNull)] else []))"
  by (simp add: build_state_def Let_def set_status tool_fields_status)

lemma build_PostToolUse:
  "event_name data = JString ''PostToolUse'' \<Longrightarrow>
   build_state w data = Some (base_state w data @
       [(''status'', JString ''processing''),
        (''tool'', dict_get data ''tool_name'' JNull),
        (''tool_input'', dict_get data ''tool_input'' (JObject []))] @
       (if truthy (dict_get data ''tool_use_id'' JNull)
        then [(''tool_use_id'', dict_get data ''tool_use_id'' JNull)] else []))"
  by (simp add: build_state_def Let_def set_status tool_fields_status)

lemma build_PermissionRequest:
  "event_name data = JString ''PermissionRequest'' \<Longrightarrow>
   build_state w data = Some (base_state w data @
       [(''status'', JString ''waiting_for_approval''),
        (''tool'', dict_get data ''tool_name'' JNull),
        (''tool_input'', dict_get data ''tool_input'' (JObject []))])"
  by (simp add: build_state_def Let_def set_status dict_set_fresh base_state_keys)

lemma build_Notification:
  "event_name data = JString ''Notification'' \<Longrightarrow>
   build_state w data =
     (if dict_get data ''notification_type'' JNull = JString ''permission_prompt'' then None
      else Some (base_state w data @
       [(''status'', if dict_get data ''notification_type'' JNull = JString ''idle_prompt''
                     then JString ''waiting_for_input'' else JString ''notification''),
        (''notification_type'', dict_get data ''notification_type'' JNull),
        (''message'', dict_get data ''message'' JNull)]))"
  by (simp add: build_state_def Let_def set_status dict_set_fresh base_state_keys)

lemma build_Stop:
  "event_name data = JString ''Stop'' \<Longrightarrow>
   build_state w data = Some (base_state w data @ [(''status'', JString ''waiting_for_input'')])"
  by (simp add: build_state_def Let_def set_status)

lemma build_SubagentStop:
  "event_name data = JString ''SubagentStop'' \<Longrightarrow>
   build_state w data = Some (base_state w data @ [(''status'', JString ''waiting_for_input'')])"
  by (simp add: build_state_def Let_def set_status)

lemma build_SessionStart:
  "event_name data = JString ''SessionStart'' \<Longrightarrow>
   build_state w data = Some (base_state w data @ [(''status'', JString ''waiting_for_input'')])"
  by (simp add: build_state_def Let_def set_status)

lemma build_SessionEnd:
  "event_name data = JString ''SessionEnd'' \<Longrightarrow>
   build_state w data = Some (base_state w data @ [(''status'', JString ''ended'')])"
  by (simp add: build_state_def Let_def set_status)

lemma build_PreCompact:
  "event_name data = JString ''PreCompact'' \<Longrightarrow>
   build_state w data = Some (base_state w data @ [(''status'', JString ''compacting'')])"
  by (simp add: build_state_def Let_def set_status)

lemma build_unknown:
  "event_name data \<notin> set (map JString
      [''UserPromptSubmit'', ''PreToolUse'', ''PostToolUse'', ''PermissionRequest'',
       ''Notification'', ''Stop'', ''SubagentStop'', ''SessionStart'', ''SessionEnd'',
       ''PreCompact'']) \<Longrightarrow>
   build_state w data = Some (base_state w data @ [(''status'', JString ''unknown'')])"
  by (simp add: build_state_def Let_def set_status)

lemmas build_simps =
  build_UserPromptSubmit build_PreToolUse build_PostToolUse build_PermissionRequest
  build_Notification build_Stop build_SubagentStop build_SessionStart build_SessionEnd
  build_PreCompact build_unknown


lemma example_world_simps:
  "stdin_json (example_world doc env) = Inr doc"
  "environ (example_world doc env) = env"
  "int_max_str_digits (example_world doc env) = 4300"
  "connect_result (example_world doc env) a = None"
  "sendall_result (example_world doc env) = None"
  "recv_result (example_world doc env) = Inr []"
  by (simp_all add: example_world_def)

lemma base_state_example:
  "base_state (example_world doc Map.empty) data =
     [(''session_id'', dict_get data ''session_id'' (JString ''unknown'')),
      (''cwd'', dict_get data ''cwd'' (JString '''')),
      (''event'', event_name data),
      (''pid'', JInt 4242),
      (''tty'', JString ''/dev/ttys001''),
      (''remote_host'', JNull),
      (''tmux_target'', JNull)]"
  by (simp add: base_state_def example_world_def opt_str_def get_tty_def strip_def is_space_def)

section \<open>The claims\<close>

subsection \<open>C1: the status and the extra fields of every event\<close>

text \<open>
  C1, as the code has it. For each of the ten event names and for every other value of
  \<^verbatim>\<open>hook_event_name\<close>, the state handed to \<^verbatim>\<open>send_event\<close> is the seven base fields
  followed by exactly the status of the table and exactly the listed extra fields:
  \<^verbatim>\<open>tool\<close> and \<^verbatim>\<open>tool_input\<close> for the two tool events and for \<^verbatim>\<open>PermissionRequest\<close>,
  \<^verbatim>\<open>notification_type\<close> and \<^verbatim>\<open>message\<close> for a \<^verbatim>\<open>Notification\<close> that is not a
  \<^verbatim>\<open>permission_prompt\<close> (for which no state is produced at all), nothing for the others.
  The claim is amended in one place: \<^verbatim>\<open>tool_use_id\<close> is copied when its value in the
  input is true in Python's sense, not whenever the key is present.
\<close>

theorem C1_event_classifier:
  "(event_name data = JString ''UserPromptSubmit'' \<longrightarrow>
      build_state w data = Some (base_state w data @ [(''status'', JString ''processing'')])) \<and>
   (event_name data = JString ''PreToolUse'' \<longrightarrow>
      build_state w data = Some (base_state w data @
        [(''status'', JString ''running_tool''),
         (''tool'', dict_get data ''tool_name'' JNull),
         (''tool_input'', dict_get data ''tool_input'' (JObject []))] @
        (if truthy (dict_get data ''tool_use_id'' JNull)
         then [(''tool_use_id'', dict_get data ''tool_use_id'' JNull)] else []))) \<and>
   (event_name data = JString ''PostToolUse'' \<longrightarrow>
      build_state w data = Some (base_state w data @
        [(''status'', JString ''processing''),
         (''tool'', dict_get data ''tool_name'' JNull),
         (''tool_input'', dict_get data ''tool_input'' (JObject []))] @
        (if truthy (dict_get data ''tool_use_id'' JNull)
         then [(''tool_use_id'', dict_get data ''tool_use_id'' JNull)] else []))) \<and>
   (event_name data = JString ''PermissionRequest'' \<longrightarrow>
      build_state w data = Some (base_state w data @
        [(''status'', JString ''waiting_for_approval''),
         (''tool'', dict_get data ''tool_name'' JNull),
         (''tool_input'', dict_get data ''tool_input'' (JObject []))])) \<and>
   (event_name data = JString ''Notification'' \<and>
    dict_get data ''notification_type'' JNull = JString ''permission_prompt'' \<longrightarrow>
      build_state w data = None) \<and>
   (event_name data = JString ''Notification'' \<and>
    dict_get data ''notification_type'' JNull = JString ''idle_prompt'' \<longrightarrow>
      build_state w data = Some (base_state w data @
        [(''status'', JString ''waiting_for_input''),
         (''notification_type'', JString ''idle_prompt''),
         (''message'', dict_get data ''message'' JNull)])) \<and>
   (event_name data = JString ''Notification'' \<and>
    dict_get data ''notification_type'' JNull \<noteq> JString ''permission_prompt'' \<and>
    dict_get data ''notification_type'' JNull \<noteq> JString ''idle_prompt'' \<longrightarrow>
      build_state w data = Some (base_state w data @
        [(''status'', JString ''notification''),
         (''notification_type'', dict_get data ''notification_type'' JNull),
         (''message'', dict_get data ''message'' JNull)])) \<and>
   (event_name data = JString ''Stop'' \<longrightarrow>
      build_state w data = Some (base_state w data @ [(''status'', JString ''waiting_for_input'')])) \<and>
   (event_name data = JString ''SubagentStop'' \<longrightarrow>
      build_state w data = Some (base_state w data @ [(''status'', JString ''waiting_for_input'')])) \<and>
   (event_name data = JString ''SessionStart'' \<longrightarrow>
      build_state w data = Some (base_state w data @ [(''status'', JString ''waiting_for_input'')])) \<and>
   (event_name data = JString ''SessionEnd'' \<longrightarrow>
      build_state w data = Some (base_state w data @ [(''status'', JString ''ended'')])) \<and>
   (event_name data = JString ''PreCompact'' \<longrightarrow>
      build_state w data = Some (base_state w data @ [(''status'', JString ''compacting'')])) \<and>
   (event_name data \<notin> set (map JString
      [''UserPromptSubmit'', ''PreToolUse'', ''PostToolUse'', ''PermissionRequest'',
       ''Notification'', ''Stop'', ''SubagentStop'', ''SessionStart'', ''SessionEnd'',
       ''PreCompact'']) \<longrightarrow>
      build_state w data = Some (base_state w data @ [(''status'', JString ''unknown'')]))"
proof (intro conjI impI)
  assume "event_name data = JString ''Notification'' \<and>
    dict_get data ''notification_type'' JNull = JString ''permission_prompt''"
  then show "build_state w data = None"
    by (simp add: build_Notification)
next
  assume "event_name data = JString ''Notification'' \<and>
    dict_get data ''notification_type'' JNull = JString ''idle_prompt''"
  then show "build_state w data = Some (base_state w data @
        [(''status'', JString ''waiting_for_input''),
         (''notification_type'', JString ''idle_prompt''),
         (''message'', dict_get data ''message'' JNull)])"
    by (simp add: build_Notification)
next
  assume "event_name data = JString ''Notification'' \<and>
    dict_get data ''notification_type'' JNull \<noteq> JString ''permission_prompt'' \<and>
    dict_get data ''notification_type'' JNull \<noteq> JString ''idle_prompt''"
  then show "build_state w data = Some (base_state w data @
        [(''status'', JString ''notification''),
         (''notification_type'', dict_get data ''notification_type'' JNull),
         (''message'', dict_get data ''message'' JNull)])"
    by (simp add: build_Notification)
qed (fact build_simps [of data w])+

text \<open>
  One input for each line of the table: a document with every optional field, under each
  event name, and the same \<^verbatim>\<open>Notification\<close> with the two other kinds of
  \<^verbatim>\<open>notification_type\<close>.
\<close>

theorem C1_event_classifier_witness:
  "build_state (event_world ''UserPromptSubmit'' ''idle_prompt'') (event_doc ''UserPromptSubmit'' ''idle_prompt'') =
     Some (base_state (event_world ''UserPromptSubmit'' ''idle_prompt'') (event_doc ''UserPromptSubmit'' ''idle_prompt'') @
        [(''status'', JString ''processing'')]) \<and>
   build_state (event_world ''PreToolUse'' ''idle_prompt'') (event_doc ''PreToolUse'' ''idle_prompt'') =
     Some (base_state (event_world ''PreToolUse'' ''idle_prompt'') (event_doc ''PreToolUse'' ''idle_prompt'') @
        [(''status'', JString ''running_tool''), (''tool'', JString ''Bash''),
         (''tool_input'', JObject [(''command'', JString ''ls'')]),
         (''tool_use_id'', JString ''toolu_01'')]) \<and>
   build_state (event_world ''PostToolUse'' ''idle_prompt'') (event_doc ''PostToolUse'' ''idle_prompt'') =
     Some (base_state (event_world ''PostToolUse'' ''idle_prompt'') (event_doc ''PostToolUse'' ''idle_prompt'') @
        [(''status'', JString ''processing''), (''tool'', JString ''Bash''),
         (''tool_input'', JObject [(''command'', JString ''ls'')]),
         (''tool_use_id'', JString ''toolu_01'')]) \<and>
   build_state (event_world ''PermissionRequest'' ''idle_prompt'') (event_doc ''PermissionRequest'' ''idle_prompt'') =
     Some (base_state (event_world ''PermissionRequest'' ''idle_prompt'') (event_doc ''PermissionRequest'' ''idle_prompt'') @
        [(''status'', JString ''waiting_for_approval''), (''tool'', JString ''Bash''),
         (''tool_input'', JObject [(''command'', JString ''ls'')])]) \<and>
   build_state (event_world ''Notification'' ''permission_prompt'') (event_doc ''Notification'' ''permission_prompt'') = None \<and>
   build_state (event_world ''Notification'' ''idle_prompt'') (event_doc ''Notification'' ''idle_prompt'') =
     Some (base_state (event_world ''Notification'' ''idle_prompt'') (event_doc ''Notification'' ''idle_prompt'') @
        [(''status'', JString ''waiting_for_input''),
         (''notification_type'', JString ''idle_prompt''), (''message'', JString ''hello'')]) \<and>
   build_state (event_world ''Notification'' ''auth_success'') (event_doc ''Notification'' ''auth_success'') =
     Some (base_state (event_world ''Notification'' ''auth_success'') (event_doc ''Notification'' ''auth_success'') @
        [(''status'', JString ''notification''),
         (''notification_type'', JString ''auth_success''), (''message'', JString ''hello'')]) \<and>
   build_state (event_world ''Stop'' ''idle_prompt'') (event_doc ''Stop'' ''idle_prompt'') =
     Some (base_state (event_world ''Stop'' ''idle_prompt'') (event_doc ''Stop'' ''idle_prompt'') @
        [(''status'', JString ''waiting_for_input'')]) \<and>
   build_state (event_world ''SubagentStop'' ''idle_prompt'') (event_doc ''SubagentStop'' ''idle_prompt'') =
     Some (base_state (event_world ''SubagentStop'' ''idle_prompt'') (event_doc ''SubagentStop'' ''idle_prompt'') @
        [(''status'', JString ''waiting_for_input'')]) \<and>
   build_state (event_world ''SessionStart'' ''idle_prompt'') (event_doc ''SessionStart'' ''idle_prompt'') =
     Some (base_state (event_world ''SessionStart'' ''idle_prompt'') (event_doc ''SessionStart'' ''idle_prompt'') @
        [(''status'', JString ''waiting_for_input'')]) \<and>
   build_state (event_world ''SessionEnd'' ''idle_prompt'') (event_doc ''SessionEnd'' ''idle_prompt'') =
     Some (base_state (event_world ''SessionEnd'' ''idle_prompt'') (event_doc ''SessionEnd'' ''idle_prompt'') @
        [(''status'', JString ''ended'')]) \<and>
   build_state (event_world ''PreCompact'' ''idle_prompt'') (event_doc ''PreCompact'' ''idle_prompt'') =
     Some (base_state (event_world ''PreCompact'' ''idle_prompt'') (event_doc ''PreCompact'' ''idle_prompt'') @
        [(''status'', JString ''compacting'')]) \<and>
   build_state (event_world ''Shutdown'' ''idle_prompt'') (event_doc ''Shutdown'' ''idle_prompt'') =
     Some (base_state (event_world ''Shutdown'' ''idle_prompt'') (event_doc ''Shutdown'' ''idle_prompt'') @
        [(''status'', JString ''unknown'')])"
  using
    C1_event_classifier [of "event_doc ''UserPromptSubmit'' ''idle_prompt''" "event_world ''UserPromptSubmit'' ''idle_prompt''"]
    C1_event_classifier [of "event_doc ''PreToolUse'' ''idle_prompt''" "event_world ''PreToolUse'' ''idle_prompt''"]
    C1_event_classifier [of "event_doc ''PostToolUse'' ''idle_prompt''" "event_world ''PostToolUse'' ''idle_prompt''"]
    C1_event_classifier [of "event_doc ''PermissionRequest'' ''idle_prompt''" "event_world ''PermissionRequest'' ''idle_prompt''"]
    C1_event_classifier [of "event_doc ''Notification'' ''permission_prompt''" "event_world ''Notification'' ''permission_prompt''"]
    C1_event_classifier [of "event_doc ''Notification'' ''idle_prompt''" "event_world ''Notification'' ''idle_prompt''"]
    C1_event_classifier [of "event_doc ''Notification'' ''auth_success''" "event_world ''Notification'' ''auth_success''"]
    C1_event_classifier [of "event_doc ''Stop'' ''idle_prompt''" "event_world ''Stop'' ''idle_prompt''"]
    C1_event_classifier [of "event_doc ''SubagentStop'' ''idle_prompt''" "event_world ''SubagentStop'' ''idle_prompt''"]
    C1_event_classifier [of "event_doc ''SessionStart'' ''idle_prompt''" "event_world ''SessionStart'' ''idle_prompt''"]
    C1_event_classifier [of "event_doc ''SessionEnd'' ''idle_prompt''" "event_world ''SessionEnd'' ''idle_prompt''"]
    C1_event_classifier [of "event_doc ''PreCompact'' ''idle_prompt''" "event_world ''PreCompact'' ''idle_prompt''"]
    C1_event_classifier [of "event_doc ''Shutdown'' ''idle_prompt''" "event_world ''Shutdown'' ''idle_prompt''"]
  by (simp_all add: event_name_def event_doc_def dict_get_def)

text \<open>
  C1 as stated fails: this \<^verbatim>\<open>PreToolUse\<close> document has the key \<^verbatim>\<open>tool_use_id\<close>, with
  the empty string as its value, and the state built from it has no \<^verbatim>\<open>tool_use_id\<close>
  (line 164 tests the value, not the presence of the key).
\<close>

theorem C1_tool_use_id_counterexample:
  "map_of [(''hook_event_name'', JString ''PreToolUse''), (''tool_name'', JString ''Bash''),
           (''tool_use_id'', JString '''')] ''tool_use_id'' = Some (JString '''') \<and>
   build_state
     (example_world
        (JObject [(''hook_event_name'', JString ''PreToolUse''), (''tool_name'', JString ''Bash''),
                  (''tool_use_id'', JString '''')]) Map.empty)
     [(''hook_event_name'', JString ''PreToolUse''), (''tool_name'', JString ''Bash''),
      (''tool_use_id'', JString '''')] =
   Some [(''session_id'', JString ''unknown''),
         (''cwd'', JString ''''),
         (''event'', JString ''PreToolUse''),
         (''pid'', JInt 4242),
         (''tty'', JString ''/dev/ttys001''),
         (''remote_host'', JNull),
         (''tmux_target'', JNull),
         (''status'', JString ''running_tool''),
         (''tool'', JString ''Bash''),
         (''tool_input'', JObject [])]"
  by (simp add: build_PreToolUse base_state_example event_name_def dict_get_def)

subsection \<open>Facts about \<^verbatim>\<open>main\<close>\<close>

lemma main_parse_error:
  "stdin_json w = Inl e \<Longrightarrow>
   main w = \<lparr>proc = (if e = JSONDecodeError then Exit 1 else Uncaught e), stdout = [], net = []\<rparr>"
  by (simp add: main_def)

lemma main_not_object:
  "stdin_json w = Inr doc \<Longrightarrow> \<forall>data. doc \<noteq> JObject data \<Longrightarrow>
   main w = \<lparr>proc = Uncaught AttributeError, stdout = [], net = []\<rparr>"
  by (cases doc) (simp_all add: main_def)

lemma main_suppressed:
  "stdin_json w = Inr (JObject data) \<Longrightarrow> build_state w data = None \<Longrightarrow>
   main w = \<lparr>proc = Exit 0, stdout = [], net = []\<rparr>"
  by (simp add: main_def)

lemma main_raises:
  "stdin_json w = Inr (JObject data) \<Longrightarrow> build_state w data = Some state \<Longrightarrow>
   send_event w state = (Inl e, tr) \<Longrightarrow>
   main w = \<lparr>proc = Uncaught e, stdout = [], net = tr\<rparr>"
  by (simp add: main_def)

lemma main_permission:
  "stdin_json w = Inr (JObject data) \<Longrightarrow> build_state w data = Some state \<Longrightarrow>
   send_event w state = (Inr response, tr) \<Longrightarrow>
   event_name data = JString ''PermissionRequest'' \<Longrightarrow>
   main w = \<lparr>proc = fst (permission_reply response), stdout = snd (permission_reply response),
             net = tr\<rparr>"
  by (simp add: main_def split: prod.split)

lemma main_forget:
  "stdin_json w = Inr (JObject data) \<Longrightarrow> build_state w data = Some state \<Longrightarrow>
   send_event w state = (Inr response, tr) \<Longrightarrow>
   event_name data \<noteq> JString ''PermissionRequest'' \<Longrightarrow>
   main w = \<lparr>proc = Exit 0, stdout = [], net = tr\<rparr>"
  by (simp add: main_def)

lemma permission_reply_proc:
  "fst (permission_reply response) = Exit 0 \<or>
   fst (permission_reply response) = Uncaught AttributeError"
  by (cases response) (simp_all add: permission_reply_def Let_def)

lemma main_proc_cases:
  assumes "stdin_json w = Inr doc"
  shows "proc (main w) = Exit 0 \<or> (\<exists>e. proc (main w) = Uncaught e)"
proof (cases "\<exists>data. doc = JObject data")
  case False
  with assms show ?thesis by (simp add: main_not_object)
next
  case True
  then obtain data where doc: "doc = JObject data" ..
  show ?thesis
  proof (cases "build_state w data")
    case None
    with assms doc show ?thesis by (simp add: main_suppressed)
  next
    case (Some state)
    obtain r tr where se: "send_event w state = (r, tr)" by (cases "send_event w state")
    show ?thesis
    proof (cases r)
      case (Inl e)
      with assms doc Some se show ?thesis by (simp add: main_raises)
    next
      case (Inr response)
      show ?thesis
      proof (cases "event_name data = JString ''PermissionRequest''")
        case True
        with assms doc Some se Inr permission_reply_proc [of response] show ?thesis
          by (auto simp add: main_permission)
      next
        case False
        with assms doc Some se Inr show ?thesis by (simp add: main_forget)
      qed
    qed
  qed
qed

subsection \<open>C5: the permission prompt notification is dropped\<close>

text \<open>
  C5. When the input is a \<^verbatim>\<open>Notification\<close> whose \<^verbatim>\<open>notification_type\<close> is
  \<^verbatim>\<open>permission_prompt\<close>, the script makes no socket call at all (no socket is created,
  nothing is connected or written), prints nothing and exits with status 0.
\<close>

theorem C5_permission_prompt_suppressed:
  assumes "stdin_json w = Inr (JObject data)"
    and "event_name data = JString ''Notification''"
    and "dict_get data ''notification_type'' JNull = JString ''permission_prompt''"
  shows "main w = \<lparr>proc = Exit 0, stdout = [], net = []\<rparr>"
proof -
  have "build_state w data = None"
    using assms(2,3) by (simp add: build_Notification)
  with assms(1) show ?thesis by (rule main_suppressed)
qed

theorem C5_permission_prompt_suppressed_witness:
  "stdin_json (event_world ''Notification'' ''permission_prompt'') =
     Inr (JObject (event_doc ''Notification'' ''permission_prompt'')) \<and>
   event_name (event_doc ''Notification'' ''permission_prompt'') = JString ''Notification'' \<and>
   dict_get (event_doc ''Notification'' ''permission_prompt'') ''notification_type'' JNull =
     JString ''permission_prompt'' \<and>
   main (event_world ''Notification'' ''permission_prompt'') =
     \<lparr>proc = Exit 0, stdout = [], net = []\<rparr>"
proof -
  have a: "stdin_json (event_world ''Notification'' ''permission_prompt'') =
     Inr (JObject (event_doc ''Notification'' ''permission_prompt''))"
    by (simp add: event_world_def example_world_def)
  have b: "event_name (event_doc ''Notification'' ''permission_prompt'') = JString ''Notification''"
    by (simp add: event_name_def event_doc_def dict_get_def)
  have c: "dict_get (event_doc ''Notification'' ''permission_prompt'') ''notification_type'' JNull =
     JString ''permission_prompt''"
    by (simp add: event_doc_def dict_get_def)
  from a b c C5_permission_prompt_suppressed [OF a b c] show ?thesis by simp
qed

subsection \<open>C6: standard input that is not JSON\<close>

text \<open>
  C6. When \<^verbatim>\<open>json.load(sys.stdin)\<close> raises \<^verbatim>\<open>JSONDecodeError\<close> the script leaves through
  \<^verbatim>\<open>sys.exit(1)\<close> with no socket call and no output; whatever the exception of the parse,
  the exit status is 1 and there is no socket call. When the document parses, the script
  never leaves through \<^verbatim>\<open>sys.exit(1)\<close>: it ends with status 0 or with an exception that
  nothing catches.
\<close>

theorem C6_malformed_stdin:
  "(stdin_json w = Inl JSONDecodeError \<longrightarrow>
      main w = \<lparr>proc = Exit 1, stdout = [], net = []\<rparr>) \<and>
   (\<forall>e. stdin_json w = Inl e \<longrightarrow>
      exit_status (proc (main w)) = 1 \<and> stdout (main w) = [] \<and> net (main w) = []) \<and>
   (\<forall>doc. stdin_json w = Inr doc \<longrightarrow> proc (main w) \<noteq> Exit 1)"
proof (intro conjI allI impI)
  fix doc assume "stdin_json w = Inr doc"
  from main_proc_cases [OF this] show "proc (main w) \<noteq> Exit 1" by auto
qed (simp_all add: main_parse_error)

theorem C6_malformed_stdin_witness:
  "main ((example_world JNull Map.empty)\<lparr>stdin_json := Inl JSONDecodeError\<rparr>) =
     \<lparr>proc = Exit 1, stdout = [], net = []\<rparr> \<and>
   exit_status (proc (main ((example_world JNull Map.empty)\<lparr>stdin_json := Inl JSONDecodeError\<rparr>))) = 1 \<and>
   proc (main (event_world ''Stop'' ''idle_prompt'')) \<noteq> Exit 1"
  using C6_malformed_stdin [of "(example_world JNull Map.empty)\<lparr>stdin_json := Inl JSONDecodeError\<rparr>"]
    C6_malformed_stdin [of "event_world ''Stop'' ''idle_prompt''"]
  by (simp add: event_world_def example_world_def)

subsection \<open>Facts about \<^verbatim>\<open>get_socket\<close> and \<^verbatim>\<open>send_event\<close>\<close>

lemma is_digit_not_space: "is_digit c \<Longrightarrow> \<not> int_space c"
  by (auto simp add: is_digit_def int_space_def)

lemma filter_digit_dropWhile:
  "filter is_digit (dropWhile int_space s) = filter is_digit s"
  by (induct s) (auto dest: is_digit_not_space)

lemma filter_digit_int_strip:
  "filter is_digit (rev (dropWhile int_space (rev (dropWhile int_space s)))) = filter is_digit s"
proof -
  have "filter is_digit (rev (dropWhile int_space (rev (dropWhile int_space s)))) =
        rev (filter is_digit (dropWhile int_space (rev (dropWhile int_space s))))"
    by (simp add: rev_filter)
  also have "\<dots> = rev (filter is_digit (rev (dropWhile int_space s)))"
    by (simp add: filter_digit_dropWhile)
  also have "\<dots> = filter is_digit (dropWhile int_space s)"
    by (simp add: rev_filter)
  finally show ?thesis by (simp add: filter_digit_dropWhile)
qed

text \<open>
  What the two corrections of \<^verbatim>\<open>int()\<close> amount to: a string that \<open>py_int\<close> converts
  has at most \<open>limit\<close> digits when there is a limit, and neither starts nor ends with
  one of the code points 28 to 31.
\<close>

lemma py_int_digit_limit:
  assumes "py_int limit s = Some n" and "0 < limit"
  shows "length (filter is_digit s) \<le> limit"
proof -
  let ?t = "rev (dropWhile int_space (rev (dropWhile int_space s)))"
  have t: "filter is_digit ?t = filter is_digit s" by (rule filter_digit_int_strip)
  from assms(1) obtain c r where c: "?t = c # r"
    by (cases ?t) (simp_all add: py_int_def)
  let ?body = "if c = CHR ''-'' \<or> c = CHR ''+'' then r else c # r"
  have sign: "\<not> is_digit CHR ''-''" "\<not> is_digit CHR ''+''"
    by (simp_all add: is_digit_def)
  have b: "filter is_digit ?body = filter is_digit ?t"
    unfolding c using sign by auto
  from assms have "\<not> limit < length (filter is_digit ?body)"
    by (auto simp add: py_int_def c Let_def split: list.splits if_splits)
  with b t show ?thesis by simp
qed

lemma py_int_examples:
  "py_int 4300 ''9999'' = Some 9999"
  "py_int 4300 '' -1_0 '' = Some (- 10)"
  "py_int 4300 (CHR 0x1F # ''8080'') = None"
  "py_int 4300 (''8080'' @ [CHR 0x1C]) = None"
  "py_int 4300 (CHR 0xA0 # ''8080'') = Some 8080"
  "py_int 4300 ''1__0'' = None"
  "py_int 4300 ''abc'' = None"
  "py_int 4300 '''' = None"
  by (simp_all add: py_int_def int_space_def is_digit_def digit_val_def)

lemma py_int_too_long: "py_int 4300 (replicate 4301 CHR ''1'') = None"
proof (cases "py_int 4300 (replicate 4301 CHR ''1'')")
  case (Some n)
  from py_int_digit_limit [OF Some] show ?thesis by (simp add: is_digit_def)
qed simp

lemma strip_examples:
  "strip (CHR 0x85 # ''ttys001'' @ [CHR 0xA0, CHR 0x0A]) = ''ttys001''"
  "strip (CHR 0x1F # ''x'') = ''x''"
  by (simp_all add: strip_def is_space_def)

lemma rsplit1_last:
  assumes "c \<notin> set after"
  shows "rsplit1 c (before @ c # after) = (before, after)"
proof -
  have r: "rev (before @ c # after) = rev after @ c # rev before" by simp
  have t: "takeWhile (\<lambda>x. x \<noteq> c) (rev after @ c # rev before) = rev after"
    using assms by (auto simp add: takeWhile_tail)
  have d: "dropWhile (\<lambda>x. x \<noteq> c) (rev after @ c # rev before) = c # rev before"
    using assms by (auto simp add: dropWhile_append3)
  show ?thesis unfolding rsplit1_def r t d by simp
qed

lemma get_socket_unix:
  "environ w ''CLAUDE_ISLAND_TCP'' = None \<or> environ w ''CLAUDE_ISLAND_TCP'' = Some [] \<Longrightarrow>
   get_socket w =
     (connect_result w (UnixAddr ''/tmp/claude-island.sock''),
      [Socket AF_UNIX, Settimeout 300, Connect (UnixAddr ''/tmp/claude-island.sock'')])"
  by (auto simp add: get_socket_def SOCKET_PATH_def TIMEOUT_SECONDS_def)

lemma get_socket_host_port:
  assumes "environ w ''CLAUDE_ISLAND_TCP'' = Some (host @ CHR '':'' # port_str)"
    and "CHR '':'' \<notin> set port_str"
    and "py_int (int_max_str_digits w) port_str = Some port"
  shows "get_socket w =
     (connect_result w (InetAddr host port),
      [Socket AF_INET, Settimeout 300, Connect (InetAddr host port)])"
  using assms by (simp add: get_socket_def rsplit1_last TIMEOUT_SECONDS_def)

lemma get_socket_port_only:
  assumes "environ w ''CLAUDE_ISLAND_TCP'' = Some tcp_target"
    and "tcp_target \<noteq> []"
    and "CHR '':'' \<notin> set tcp_target"
    and "py_int (int_max_str_digits w) tcp_target = Some port"
  shows "get_socket w =
     (connect_result w (InetAddr ''localhost'' port),
      [Socket AF_INET, Settimeout 300, Connect (InetAddr ''localhost'' port)])"
  using assms by (simp add: get_socket_def TIMEOUT_SECONDS_def)

lemma get_socket_bad_port:
  assumes "environ w ''CLAUDE_ISLAND_TCP'' = Some tcp_target"
    and "tcp_target \<noteq> []"
    and "CHR '':'' \<notin> set tcp_target"
    and "py_int (int_max_str_digits w) tcp_target = None"
  shows "get_socket w = (Some ValueError, [])"
  using assms by (simp add: get_socket_def)

lemma get_socket_io: "io (snd (get_socket w)) = []"
  by (simp add: get_socket_def io_def Let_def split: option.split prod.split)

lemma send_event_no_socket:
  "get_socket w = (Some e, tr) \<Longrightarrow> send_event w state = (handle e, tr)"
  by (simp add: send_event_def)

lemma send_event_write_fails:
  "get_socket w = (None, tr) \<Longrightarrow> sendall_result w = Some e \<Longrightarrow>
   send_event w state = (handle e, tr @ [Sendall (JObject state)])"
  by (simp add: send_event_def)

lemma send_event_forget:
  "get_socket w = (None, tr) \<Longrightarrow> sendall_result w = None \<Longrightarrow>
   dict_get state ''status'' JNull \<noteq> JString ''waiting_for_approval'' \<Longrightarrow>
   send_event w state = (Inr JNull, tr @ [Sendall (JObject state), Close])"
  by (simp add: send_event_def)

lemma send_event_recv_fails:
  "get_socket w = (None, tr) \<Longrightarrow> sendall_result w = None \<Longrightarrow>
   dict_get state ''status'' JNull = JString ''waiting_for_approval'' \<Longrightarrow>
   recv_result w = Inl e \<Longrightarrow>
   send_event w state = (handle e, tr @ [Sendall (JObject state), Recv 4096])"
  by (simp add: send_event_def)

lemma send_event_recv_empty:
  "get_socket w = (None, tr) \<Longrightarrow> sendall_result w = None \<Longrightarrow>
   dict_get state ''status'' JNull = JString ''waiting_for_approval'' \<Longrightarrow>
   recv_result w = Inr [] \<Longrightarrow>
   send_event w state = (Inr JNull, tr @ [Sendall (JObject state), Recv 4096, Close])"
  by (simp add: send_event_def)


text \<open>The status that \<^verbatim>\<open>send_event\<close> reads back from a state that was just built.\<close>

lemma status_of_permission_state:
  "dict_get (base_state w data @
       [(''status'', JString ''waiting_for_approval''),
        (''tool'', t), (''tool_input'', ti)]) ''status'' JNull = JString ''waiting_for_approval''"
  by (simp add: dict_get_def base_state_def Let_def)


text \<open>Runs of \<^verbatim>\<open>send_event\<close> in the example worlds.\<close>

lemma get_socket_example:
  "get_socket (example_world doc Map.empty) =
     (None, [Socket AF_UNIX, Settimeout 300, Connect (UnixAddr ''/tmp/claude-island.sock'')])"
  by (simp add: get_socket_unix example_world_simps)



lemma base_state_reply_world:
  "base_state (reply_world doc Map.empty bytes reply) data =
     [(''session_id'', dict_get data ''session_id'' (JString ''unknown'')),
      (''cwd'', dict_get data ''cwd'' (JString '''')),
      (''event'', event_name data),
      (''pid'', JInt 4242),
      (''tty'', JString ''/dev/ttys001''),
      (''remote_host'', JNull),
      (''tmux_target'', JNull)]"
  by (simp add: base_state_def reply_world_def example_world_def opt_str_def get_tty_def
        strip_def is_space_def)

lemma io_append: "io (xs @ ys) = io xs @ io ys"
  by (simp add: io_def)

lemma send_event_io:
  "io (snd (send_event w state)) =
     (if fst (get_socket w) \<noteq> None then []
      else if sendall_result w \<noteq> None \<or>
              dict_get state ''status'' JNull \<noteq> JString ''waiting_for_approval''
           then [Sendall (JObject state)]
           else [Sendall (JObject state), Recv 4096])"
proof -
  obtain r tr where g: "get_socket w = (r, tr)" by (cases "get_socket w")
  have tr: "io tr = []" using get_socket_io [of w] g by simp
  show ?thesis
  proof (cases r)
    case (Some e)
    with g tr show ?thesis by (simp add: send_event_no_socket)
  next
    case None
    note sock = g [unfolded None]
    show ?thesis
    proof (cases "sendall_result w")
      case (Some e)
      with sock tr show ?thesis by (simp add: send_event_write_fails io_append) (simp add: io_def)
    next
      case None
      show ?thesis
      proof (cases "dict_get state ''status'' JNull = JString ''waiting_for_approval''")
        case False
        with sock None tr show ?thesis
          by (simp add: send_event_forget io_append) (simp add: io_def)
      next
        case True
        with sock None tr show ?thesis
          by (cases "recv_result w")
             (simp_all add: send_event_def io_append Let_def split: sum.split, simp_all add: io_def)
      qed
    qed
  qed
qed

text \<open>
  What the \<^verbatim>\<open>except\<close> clause does absorb: when every exception raised inside
  \<^verbatim>\<open>send_event\<close> is an \<^verbatim>\<open>OSError\<close> or a \<^verbatim>\<open>JSONDecodeError\<close>, the function returns.
\<close>

lemma send_event_returns:
  assumes "\<forall>e. fst (get_socket w) = Some e \<longrightarrow> caught e"
    and "\<forall>e. sendall_result w = Some e \<longrightarrow> caught e"
    and "\<forall>e. recv_result w = Inl e \<longrightarrow> caught e"
    and "\<forall>b e. loads_decode w b = Inl e \<longrightarrow> caught e"
  shows "\<exists>v. fst (send_event w state) = Inr v"
proof -
  obtain r tr where g: "get_socket w = (r, tr)" by (cases "get_socket w")
  show ?thesis
    using assms g
    by (auto simp add: send_event_def handle_def Let_def split: option.split sum.split)
qed

text \<open>
  Where the connection is closed: when \<^verbatim>\<open>get_socket\<close>, \<^verbatim>\<open>sendall\<close> and (on the
  permission path) \<^verbatim>\<open>recv\<close> all return, the last socket call is the close.
\<close>

lemma send_event_closes:
  assumes "fst (get_socket w) = None" and "sendall_result w = None"
    and "dict_get state ''status'' JNull = JString ''waiting_for_approval'' \<longrightarrow>
         (\<exists>bytes. recv_result w = Inr bytes)"
  shows "last (snd (send_event w state)) = Close"
proof -
  obtain tr where g: "get_socket w = (None, tr)"
    using assms(1) by (cases "get_socket w") simp
  show ?thesis
    using assms(2,3) g
    by (auto simp add: send_event_def Let_def split: sum.split)
qed

subsection \<open>C7: which address \<^verbatim>\<open>get_socket\<close> connects to\<close>

text \<open>
  C7, amended. If \<^verbatim>\<open>CLAUDE_ISLAND_TCP\<close> is \<open>host:port\<close>, split at its last colon, and
  the part after the colon is a number, \<^verbatim>\<open>get_socket\<close> connects a TCP socket to that host
  and port. If the variable is not empty, has no colon and is a number, it connects to
  \<^verbatim>\<open>localhost\<close> on that port. If the variable is unset, or set to the empty string, it
  connects a Unix socket to \<^verbatim>\<open>/tmp/claude-island.sock\<close>. In every case the socket calls
  are exactly: create, set the timeout to 300 seconds, connect, and the result of
  \<^verbatim>\<open>get_socket\<close> is that of the connect. The amendment is the empty value: line 60 tests
  the truth of the value, so an empty value selects the Unix socket.
\<close>

theorem C7_transport_selection:
  "(environ w ''CLAUDE_ISLAND_TCP'' = Some (host @ CHR '':'' # port_str) \<and>
    CHR '':'' \<notin> set port_str \<and> py_int (int_max_str_digits w) port_str = Some port \<longrightarrow>
      get_socket w =
        (connect_result w (InetAddr host port),
         [Socket AF_INET, Settimeout 300, Connect (InetAddr host port)])) \<and>
   (environ w ''CLAUDE_ISLAND_TCP'' = Some tcp_target \<and> tcp_target \<noteq> [] \<and>
    CHR '':'' \<notin> set tcp_target \<and>
    py_int (int_max_str_digits w) tcp_target = Some port \<longrightarrow>
      get_socket w =
        (connect_result w (InetAddr ''localhost'' port),
         [Socket AF_INET, Settimeout 300, Connect (InetAddr ''localhost'' port)])) \<and>
   (environ w ''CLAUDE_ISLAND_TCP'' = None \<or> environ w ''CLAUDE_ISLAND_TCP'' = Some [] \<longrightarrow>
      get_socket w =
        (connect_result w (UnixAddr ''/tmp/claude-island.sock''),
         [Socket AF_UNIX, Settimeout 300, Connect (UnixAddr ''/tmp/claude-island.sock'')])) \<and>
   (\<forall>a. Connect a \<in> set (snd (get_socket w)) \<longrightarrow>
      (\<exists>f. snd (get_socket w) = [Socket f, Settimeout 300, Connect a]))"
proof (intro conjI impI allI)
  fix a assume "Connect a \<in> set (snd (get_socket w))"
  then show "\<exists>f. snd (get_socket w) = [Socket f, Settimeout 300, Connect a]"
    by (auto simp add: get_socket_def TIMEOUT_SECONDS_def Let_def
          split: option.splits prod.splits if_splits)
qed (simp_all add: get_socket_host_port get_socket_port_only get_socket_unix)

theorem C7_transport_selection_witness:
  "get_socket (example_world JNull [''CLAUDE_ISLAND_TCP'' \<mapsto> ''host:9999'']) =
     (None, [Socket AF_INET, Settimeout 300, Connect (InetAddr ''host'' 9999)]) \<and>
   get_socket (example_world JNull [''CLAUDE_ISLAND_TCP'' \<mapsto> ''9999'']) =
     (None, [Socket AF_INET, Settimeout 300, Connect (InetAddr ''localhost'' 9999)]) \<and>
   get_socket (example_world JNull Map.empty) =
     (None, [Socket AF_UNIX, Settimeout 300, Connect (UnixAddr ''/tmp/claude-island.sock'')])"
proof -
  have p: "py_int 4300 ''9999'' = Some 9999"
    by (simp add: py_int_def int_space_def is_digit_def digit_val_def)
  show ?thesis
    using
      C7_transport_selection [where w = "example_world JNull [''CLAUDE_ISLAND_TCP'' \<mapsto> ''host:9999'']"
        and host = "''host''" and port_str = "''9999''" and port = 9999]
      C7_transport_selection [where w = "example_world JNull [''CLAUDE_ISLAND_TCP'' \<mapsto> ''9999'']"
        and tcp_target = "''9999''" and port = 9999]
      C7_transport_selection [where w = "example_world JNull Map.empty"]
    by (simp add: p example_world_simps)
qed

text \<open>
  C7 as stated fails when the variable is set with no colon in it, to the empty string:
  the value is not taken as a port on \<^verbatim>\<open>localhost\<close>, the Unix socket is used.
\<close>

theorem C7_empty_target_counterexample:
  "environ (example_world JNull [''CLAUDE_ISLAND_TCP'' \<mapsto> '''']) ''CLAUDE_ISLAND_TCP'' = Some '''' \<and>
   get_socket (example_world JNull [''CLAUDE_ISLAND_TCP'' \<mapsto> '''']) =
     (None, [Socket AF_UNIX, Settimeout 300, Connect (UnixAddr ''/tmp/claude-island.sock'')])"
  by (simp add: get_socket_unix example_world_simps)

subsection \<open>C3: exceptions that leave \<^verbatim>\<open>send_event\<close>\<close>

text \<open>
  C3 fails on the code. With \<^verbatim>\<open>CLAUDE_ISLAND_TCP=abc\<close> and a \<^verbatim>\<open>Stop\<close> event on standard
  input, \<^verbatim>\<open>int("abc")\<close> raises \<^verbatim>\<open>ValueError\<close> inside \<^verbatim>\<open>get_socket\<close>; the clause
  \<^verbatim>\<open>except (socket.error, OSError, json.JSONDecodeError)\<close> does not catch it, so it leaves
  \<^verbatim>\<open>send_event\<close> and then \<^verbatim>\<open>main\<close>: the process ends with a traceback and status 1,
  although standard input parsed.
\<close>

theorem C3_malformed_port_raises:
  "send_event
     (example_world (JObject [(''hook_event_name'', JString ''Stop'')])
        [''CLAUDE_ISLAND_TCP'' \<mapsto> ''abc''])
     (base_state
        (example_world (JObject [(''hook_event_name'', JString ''Stop'')])
           [''CLAUDE_ISLAND_TCP'' \<mapsto> ''abc''])
        [(''hook_event_name'', JString ''Stop'')] @ [(''status'', JString ''waiting_for_input'')]) =
     (Inl ValueError, []) \<and>
   main (example_world (JObject [(''hook_event_name'', JString ''Stop'')])
           [''CLAUDE_ISLAND_TCP'' \<mapsto> ''abc'']) =
     \<lparr>proc = Uncaught ValueError, stdout = [], net = []\<rparr> \<and>
   exit_status (proc (main (example_world (JObject [(''hook_event_name'', JString ''Stop'')])
           [''CLAUDE_ISLAND_TCP'' \<mapsto> ''abc'']))) = 1"
proof -
  let ?d = "[(''hook_event_name'', JString ''Stop'')]"
  let ?w = "example_world (JObject ?d) [''CLAUDE_ISLAND_TCP'' \<mapsto> ''abc'']"
  have p: "py_int 4300 ''abc'' = None"
    by (simp add: py_int_def int_space_def is_digit_def)
  have g: "get_socket ?w = (Some ValueError, [])"
    by (rule get_socket_bad_port [where tcp_target = "''abc''"])
       (simp_all add: p example_world_simps)
  have s: "send_event ?w st = (Inl ValueError, [])" for st
    using send_event_no_socket [OF g, of st] by (simp add: handle_def caught_def)
  have b: "build_state ?w ?d = Some (base_state ?w ?d @ [(''status'', JString ''waiting_for_input'')])"
    by (simp add: build_Stop event_name_def dict_get_def)
  have m: "main ?w = \<lparr>proc = Uncaught ValueError, stdout = [], net = []\<rparr>"
    by (rule main_raises [OF _ b s]) (simp add: example_world_simps)
  show ?thesis using s m by simp
qed

subsection \<open>C4: the writes and reads of one exchange\<close>

text \<open>
  C4, amended. The writes and reads \<^verbatim>\<open>send_event\<close> makes are, in this order:
  \<^item> for a state whose status is not \<^verbatim>\<open>waiting_for_approval\<close>: one write of the state and
    no read when \<^verbatim>\<open>get_socket\<close> returned a connection, nothing at all when it raised;
  \<^item> for a state whose status is \<^verbatim>\<open>waiting_for_approval\<close>: one write of the state
    followed by one read of at most 4096 bytes when the connection was made and the write
    returned; the write alone when the write raised; nothing when \<^verbatim>\<open>get_socket\<close> raised;
  \<^item> when that read times out or yields no bytes, \<^verbatim>\<open>send_event\<close> returns \<^verbatim>\<open>None\<close>, and
    the permission branch of \<^verbatim>\<open>main\<close> prints nothing and exits with status 0.
  The amendment is the condition on the connection: the claim promises the write for every
  record, the code writes only once it is connected.
\<close>

theorem C4_one_write_one_read:
  "(dict_get state ''status'' JNull \<noteq> JString ''waiting_for_approval'' \<longrightarrow>
      io (snd (send_event w state)) =
        (if fst (get_socket w) = None then [Sendall (JObject state)] else [])) \<and>
   (dict_get state ''status'' JNull = JString ''waiting_for_approval'' \<longrightarrow>
      io (snd (send_event w state)) =
        (if fst (get_socket w) = None
         then (if sendall_result w = None then [Sendall (JObject state), Recv 4096]
               else [Sendall (JObject state)])
         else [])) \<and>
   (dict_get state ''status'' JNull = JString ''waiting_for_approval'' \<and>
    fst (get_socket w) = None \<and> sendall_result w = None \<and>
    (recv_result w = Inl SocketTimeout \<or> recv_result w = Inr []) \<longrightarrow>
      fst (send_event w state) = Inr JNull) \<and>
   (stdin_json w = Inr (JObject data) \<and> event_name data = JString ''PermissionRequest'' \<and>
    fst (get_socket w) = None \<and> sendall_result w = None \<and>
    (recv_result w = Inl SocketTimeout \<or> recv_result w = Inr []) \<longrightarrow>
      proc (main w) = Exit 0 \<and> stdout (main w) = [])"
proof -
  have none: "fst (send_event w st) = Inr JNull"
    if st: "dict_get st ''status'' JNull = JString ''waiting_for_approval''"
      and g: "fst (get_socket w) = None" and s: "sendall_result w = None"
      and r: "recv_result w = Inl SocketTimeout \<or> recv_result w = Inr []" for st
  proof -
    obtain tr where sock: "get_socket w = (None, tr)"
      using g by (cases "get_socket w") simp
    from r show ?thesis
    proof
      assume "recv_result w = Inl SocketTimeout"
      from send_event_recv_fails [OF sock s st this] show ?thesis
        by (simp add: handle_def caught_def)
    next
      assume "recv_result w = Inr []"
      from send_event_recv_empty [OF sock s st this] show ?thesis by simp
    qed
  qed
  have deferral: "proc (main w) = Exit 0 \<and> stdout (main w) = []"
    if d: "stdin_json w = Inr (JObject data)"
      and ev: "event_name data = JString ''PermissionRequest''"
      and g: "fst (get_socket w) = None" and s: "sendall_result w = None"
      and r: "recv_result w = Inl SocketTimeout \<or> recv_result w = Inr []"
  proof -
    let ?st = "base_state w data @
       [(''status'', JString ''waiting_for_approval''),
        (''tool'', dict_get data ''tool_name'' JNull),
        (''tool_input'', dict_get data ''tool_input'' (JObject []))]"
    have b: "build_state w data = Some ?st" using ev by (rule build_PermissionRequest)
    have "fst (send_event w ?st) = Inr JNull"
      using status_of_permission_state g s r by (rule none)
    then obtain tr where "send_event w ?st = (Inr JNull, tr)"
      by (cases "send_event w ?st") simp
    from main_permission [OF d b this ev] show ?thesis
      by (simp add: permission_reply_def)
  qed
  show ?thesis
    by (intro conjI impI) (simp_all add: send_event_io none deferral)
qed

theorem C4_one_write_one_read_witness:
  "io (snd (send_event (event_world ''Stop'' ''idle_prompt'')
         [(''event'', JString ''Stop''), (''status'', JString ''waiting_for_input'')])) =
     [Sendall (JObject [(''event'', JString ''Stop''), (''status'', JString ''waiting_for_input'')])] \<and>
   io (snd (send_event
         ((event_world ''PermissionRequest'' ''idle_prompt'')\<lparr>recv_result := Inl SocketTimeout\<rparr>)
         [(''event'', JString ''PermissionRequest''), (''status'', JString ''waiting_for_approval'')])) =
     [Sendall (JObject [(''event'', JString ''PermissionRequest''),
                        (''status'', JString ''waiting_for_approval'')]), Recv 4096] \<and>
   fst (send_event
         ((event_world ''PermissionRequest'' ''idle_prompt'')\<lparr>recv_result := Inl SocketTimeout\<rparr>)
         [(''event'', JString ''PermissionRequest''), (''status'', JString ''waiting_for_approval'')]) =
     Inr JNull \<and>
   proc (main ((event_world ''PermissionRequest'' ''idle_prompt'')\<lparr>recv_result := Inl SocketTimeout\<rparr>)) =
     Exit 0 \<and>
   stdout (main ((event_world ''PermissionRequest'' ''idle_prompt'')\<lparr>recv_result := Inl SocketTimeout\<rparr>)) =
     []"
proof -
  have g1: "fst (get_socket (event_world ''Stop'' ''idle_prompt'')) = None"
    by (simp add: event_world_def get_socket_example)
  have g2: "fst (get_socket
      ((event_world ''PermissionRequest'' ''idle_prompt'')\<lparr>recv_result := Inl SocketTimeout\<rparr>)) = None"
    by (simp add: event_world_def example_world_def get_socket_unix)
  have e: "event_name (event_doc ''PermissionRequest'' ''idle_prompt'') = JString ''PermissionRequest''"
    by (simp add: event_name_def event_doc_def dict_get_def)
  show ?thesis
    using
      C4_one_write_one_read [where w = "event_world ''Stop'' ''idle_prompt''"
        and state = "[(''event'', JString ''Stop''), (''status'', JString ''waiting_for_input'')]"]
      C4_one_write_one_read [where
        w = "(event_world ''PermissionRequest'' ''idle_prompt'')\<lparr>recv_result := Inl SocketTimeout\<rparr>"
        and state = "[(''event'', JString ''PermissionRequest''),
                      (''status'', JString ''waiting_for_approval'')]"
        and data = "event_doc ''PermissionRequest'' ''idle_prompt''"]
    by (simp add: g1 g2 e dict_get_def) (simp add: event_world_def example_world_def)
qed

text \<open>
  C4 as stated fails when nothing listens on the socket: for this \<^verbatim>\<open>Stop\<close> event the
  connect is refused, and the socket calls of the whole run contain no write.
\<close>

theorem C4_refused_counterexample:
  "main ((event_world ''Stop'' ''idle_prompt'')\<lparr>connect_result := (\<lambda>_. Some OSError)\<rparr>) =
     \<lparr>proc = Exit 0, stdout = [],
      net = [Socket AF_UNIX, Settimeout 300, Connect (UnixAddr ''/tmp/claude-island.sock'')]\<rparr> \<and>
   io (net (main ((event_world ''Stop'' ''idle_prompt'')\<lparr>connect_result := (\<lambda>_. Some OSError)\<rparr>))) =
     []"
proof -
  let ?w = "(event_world ''Stop'' ''idle_prompt'')\<lparr>connect_result := (\<lambda>_. Some OSError)\<rparr>"
  let ?d = "event_doc ''Stop'' ''idle_prompt''"
  let ?tr = "[Socket AF_UNIX, Settimeout 300, Connect (UnixAddr ''/tmp/claude-island.sock'')]"
  have ev: "event_name ?d = JString ''Stop''"
    by (simp add: event_name_def event_doc_def dict_get_def)
  have d: "stdin_json ?w = Inr (JObject ?d)"
    by (simp add: event_world_def example_world_def)
  have g: "get_socket ?w = (Some OSError, ?tr)"
    by (simp add: get_socket_unix event_world_def example_world_def)
  have s: "send_event ?w st = (Inr JNull, ?tr)" for st
    using send_event_no_socket [OF g, of st] by (simp add: handle_def caught_def)
  have m: "main ?w = \<lparr>proc = Exit 0, stdout = [], net = ?tr\<rparr>"
    using main_forget [OF d build_Stop [OF ev] s] ev by simp
  show ?thesis unfolding m by (simp add: io_def)
qed

subsection \<open>C8: closing the connection\<close>

text \<open>
  C8 fails on the code. \<^verbatim>\<open>sock.close()\<close> is called on the two paths on which nothing
  raised (lines 112 and 116); the \<^verbatim>\<open>except\<close> clause returns without closing. Here a
  \<^verbatim>\<open>PermissionRequest\<close> is sent, the read times out, and \<^verbatim>\<open>send_event\<close> returns
  \<^verbatim>\<open>None\<close> after the socket calls create, set timeout, connect, write, read: there is no
  close among them.
\<close>

theorem C8_timeout_leaves_socket_open:
  "main ((event_world ''PermissionRequest'' ''idle_prompt'')\<lparr>recv_result := Inl SocketTimeout\<rparr>) =
     \<lparr>proc = Exit 0, stdout = [],
      net = [Socket AF_UNIX, Settimeout 300, Connect (UnixAddr ''/tmp/claude-island.sock''),
             Sendall (JObject
               [(''session_id'', JString ''s-1''),
                (''cwd'', JString ''/work''),
                (''event'', JString ''PermissionRequest''),
                (''pid'', JInt 4242),
                (''tty'', JString ''/dev/ttys001''),
                (''remote_host'', JNull),
                (''tmux_target'', JNull),
                (''status'', JString ''waiting_for_approval''),
                (''tool'', JString ''Bash''),
                (''tool_input'', JObject [(''command'', JString ''ls'')])]),
             Recv 4096]\<rparr> \<and>
   Close \<notin> set (net (main
     ((event_world ''PermissionRequest'' ''idle_prompt'')\<lparr>recv_result := Inl SocketTimeout\<rparr>)))"
proof -
  let ?w = "(event_world ''PermissionRequest'' ''idle_prompt'')\<lparr>recv_result := Inl SocketTimeout\<rparr>"
  let ?d = "event_doc ''PermissionRequest'' ''idle_prompt''"
  let ?tr = "[Socket AF_UNIX, Settimeout 300, Connect (UnixAddr ''/tmp/claude-island.sock'')]"
  have ev: "event_name ?d = JString ''PermissionRequest''"
    by (simp add: event_name_def event_doc_def dict_get_def)
  have d: "stdin_json ?w = Inr (JObject ?d)"
    by (simp add: event_world_def example_world_def)
  have g: "get_socket ?w = (None, ?tr)"
    by (simp add: get_socket_unix event_world_def example_world_def)
  have sa: "sendall_result ?w = None" and rv: "recv_result ?w = Inl SocketTimeout"
    by (simp_all add: event_world_def example_world_def)
  have s: "send_event ?w st = (Inr JNull, ?tr @ [Sendall (JObject st), Recv 4096])"
    if "dict_get st ''status'' JNull = JString ''waiting_for_approval''" for st
    using send_event_recv_fails [OF g sa that rv] by (simp add: handle_def caught_def)
  have b: "base_state ?w ?d =
     [(''session_id'', JString ''s-1''),
      (''cwd'', JString ''/work''),
      (''event'', JString ''PermissionRequest''),
      (''pid'', JInt 4242),
      (''tty'', JString ''/dev/ttys001''),
      (''remote_host'', JNull),
      (''tmux_target'', JNull)]"
    by (simp add: base_state_def event_world_def example_world_def opt_str_def get_tty_def
          strip_def is_space_def ev)
       (simp add: event_doc_def dict_get_def)
  have m: "main ?w = \<lparr>proc = Exit 0, stdout = [], net = ?tr @
     [Sendall (JObject (base_state ?w ?d @
       [(''status'', JString ''waiting_for_approval''),
        (''tool'', dict_get ?d ''tool_name'' JNull),
        (''tool_input'', dict_get ?d ''tool_input'' (JObject []))])), Recv 4096]\<rparr>"
    using main_permission [OF d build_PermissionRequest [OF ev] s [OF status_of_permission_state] ev]
    by (simp add: permission_reply_def)
  have t: "dict_get ?d ''tool_name'' JNull = JString ''Bash''"
    "dict_get ?d ''tool_input'' (JObject []) = JObject [(''command'', JString ''ls'')]"
    by (simp_all add: event_doc_def dict_get_def)
  show ?thesis unfolding m b t by simp
qed

subsection \<open>C9: the fields of a record\<close>




subsection \<open>C2 and C10: from the reply to the printed decision\<close>









end
